theory Spec2Isabelle
  imports Complex_Main "HOL-Library.AList"
begin

section \<open>Snapshot values\<close>

text \<open>
  \<^verbatim>\<open>SnapshotValue\<close> (types.ts) is a string, a symbol, a keyed record, an array, a
  function, a number, a boolean, \<^verbatim>\<open>null\<close> or \<^verbatim>\<open>undefined\<close>.
  Functions, symbols, records and arrays are reference values: each carries the
  address of the object it denotes, and \<^verbatim>\<open>===\<close> on them compares addresses.
  A record or an array is given by its enumerable properties in \<^verbatim>\<open>for .. in\<close>
  order (for an array the keys are its indices in decimal). Values are finite trees, so a
  self-referential record has no representation here.
\<close>

type_synonym ref = nat

datatype jsnumber = NaN | PosInfinity | NegInfinity | Finite rat

datatype jsvalue =
    VUndefined
  | VNull
  | VBool bool
  | VNum jsnumber
  | VStr string
  | VSym ref "string option"
  | VFun ref
  | VObj ref bool "(string \<times> jsvalue) list"

datatype jstype = TUndefined | TObject | TBoolean | TNumber | TString | TSymbol | TFunction

fun typeof :: "jsvalue \<Rightarrow> jstype" where
  "typeof VUndefined = TUndefined"
| "typeof VNull = TObject"
| "typeof (VBool b) = TBoolean"
| "typeof (VNum n) = TNumber"
| "typeof (VStr s) = TString"
| "typeof (VSym a d) = TSymbol"
| "typeof (VFun a) = TFunction"
| "typeof (VObj a arr ps) = TObject"

text \<open>\<^verbatim>\<open>Number.isNaN\<close>: true only for the number NaN.\<close>

fun isNaN :: "jsvalue \<Rightarrow> bool" where
  "isNaN (VNum NaN) = True"
| "isNaN v = False"

text \<open>Truthiness, as \<^verbatim>\<open>received && ...\<close> and \<^verbatim>\<open>!expected\<close> read it.\<close>

fun truthy :: "jsvalue \<Rightarrow> bool" where
  "truthy VUndefined = False"
| "truthy VNull = False"
| "truthy (VBool b) = b"
| "truthy (VNum n) = (n \<noteq> NaN \<and> n \<noteq> Finite 0)"
| "truthy (VStr s) = (s \<noteq> [])"
| "truthy (VSym a d) = True"
| "truthy (VFun a) = True"
| "truthy (VObj a arr ps) = True"

text \<open>\<^verbatim>\<open>symbol.toString()\<close> is \<^verbatim>\<open>Symbol(<description>)\<close>.\<close>

definition symbolToString :: "string option \<Rightarrow> string" where
  "symbolToString d = ''Symbol('' @ (case d of None \<Rightarrow> [] | Some t \<Rightarrow> t) @ '')''"

fun toStringSym :: "jsvalue \<Rightarrow> string" where
  "toStringSym (VSym a d) = symbolToString d"
| "toStringSym v = []"

text \<open>Strict equality \<^verbatim>\<open>===\<close>: by value on primitives (NaN differs from itself),
  by address on symbols, functions, records and arrays.\<close>

fun strictEq :: "jsvalue \<Rightarrow> jsvalue \<Rightarrow> bool" where
  "strictEq VUndefined VUndefined = True"
| "strictEq VNull VNull = True"
| "strictEq (VBool a) (VBool b) = (a = b)"
| "strictEq (VNum a) (VNum b) = (a \<noteq> NaN \<and> a = b)"
| "strictEq (VStr a) (VStr b) = (a = b)"
| "strictEq (VSym a d) (VSym b e) = (a = b)"
| "strictEq (VFun a) (VFun b) = (a = b)"
| "strictEq (VObj a arr ps) (VObj b arr' qs) = (a = b)"
| "strictEq v w = False"

text \<open>\<^verbatim>\<open>value[key]\<close>: the property's value, \<^verbatim>\<open>undefined\<close> when there is none.\<close>

fun getProp :: "jsvalue \<Rightarrow> string \<Rightarrow> jsvalue" where
  "getProp (VObj a arr ps) k = (case map_of ps k of None \<Rightarrow> VUndefined | Some v \<Rightarrow> v)"
| "getProp v k = VUndefined"

text \<open>The number of keys a \<^verbatim>\<open>for .. in\<close> loop over the value visits.\<close>

fun keyCount :: "jsvalue \<Rightarrow> nat" where
  "keyCount (VObj a arr ps) = length ps"
| "keyCount v = 0"

section \<open>The deep-equal comparator\<close>

text \<open>
  \<^verbatim>\<open>SnapshotState.compare\<close>. \<open>compareKeys\<close> is the first \<^verbatim>\<open>for .. in\<close>
  loop; it is \<open>False\<close> exactly when the loop leaves through \<^verbatim>\<open>return false\<close>. A
  completed loop has counted every key of \<^verbatim>\<open>received\<close>. A truthy value of type
  object is a record or an array, so the inner \<open>case\<close> only names its properties.
\<close>

fun compare :: "jsvalue \<Rightarrow> jsvalue \<Rightarrow> bool"
  and compareKeys :: "(string \<times> jsvalue) list \<Rightarrow> jsvalue \<Rightarrow> bool" where
  "compare received expected =
     (if typeof received \<noteq> typeof expected then False
      else if typeof received = TFunction then True
      else if typeof received = TNumber \<and> isNaN received \<and> isNaN expected then True
      else if typeof received = TSymbol then toStringSym received = toStringSym expected
      else if truthy received \<and> typeof received = TObject then
        (if \<not> truthy expected then False
         else (case received of
                 VObj a arr ps \<Rightarrow>
                   if \<not> compareKeys ps expected then False
                   else if length ps \<noteq> keyCount expected then False
                   else strictEq received expected
               | _ \<Rightarrow> strictEq received expected))
      else strictEq received expected)"
| "compareKeys [] expected = True"
| "compareKeys ((key, v) # ps) expected =
     (if \<not> compare v (getProp expected key) then False else compareKeys ps expected)"

declare compare.simps(1) [simp del]

text \<open>A value is well formed when no record or array in it lists a key twice.\<close>

fun wellFormed :: "jsvalue \<Rightarrow> bool"
  and wellFormedProps :: "(string \<times> jsvalue) list \<Rightarrow> bool" where
  "wellFormed (VObj a arr ps) = (distinct (map fst ps) \<and> wellFormedProps ps)"
| "wellFormed v = True"
| "wellFormedProps [] = True"
| "wellFormedProps ((k, v) # ps) = (wellFormed v \<and> wellFormedProps ps)"

section \<open>The matcher state\<close>

text \<open>
  The helpers of \<^verbatim>\<open>./utils\<close> that \<^verbatim>\<open>SnapshotState\<close> calls are not part of the
  sources; every definition below takes them as a parameter, so what is proved holds
  whatever they compute.
\<close>

record utils =
  testNameToKey :: "string \<Rightarrow> nat \<Rightarrow> string"
  keyToTestName :: "string \<Rightarrow> string"
  serialize :: "jsvalue \<Rightarrow> string"
  addExtraLineBreaks :: "string \<Rightarrow> string"
  removeExtraLineBreaks :: "string \<Rightarrow> string"

datatype updateState = UpdateAll | UpdateNew | UpdateNone

text \<open>\<^verbatim>\<open>Frame\<close> of jest-message-util: a file with an optional line and column.\<close>

record frame =
  frameFile :: string
  frameLine :: "int option"
  frameColumn :: "int option"

text \<open>A record of the inline queue, as \<^verbatim>\<open>_addSnapshot\<close> pushes it.\<close>

record queuedInline =
  qFrame :: frame
  qSerialized :: bool
  qSnapshot :: jsvalue

datatype error =
    CouldntInferStackFrame
  | MultipleInlineSnapshots
  | CouldntLocateAll
  | NoInsertLocation
  | NotAFunction
  | ExternalFailure

text \<open>
  The fields of \<^verbatim>\<open>SnapshotState\<close> that its methods read or assign. The constructor
  stores one and the same object in \<^verbatim>\<open>_initialData\<close> and \<^verbatim>\<open>_snapshotData\<close>, and
  no method makes them differ, so the single field \<open>snapshotData\<close> stands for both.
  \<open>uncheckedKeys\<close> is the \<^verbatim>\<open>Set\<close> in insertion order.
\<close>

record SnapshotState =
  counters :: "string \<rightharpoonup> nat"
  dirty :: bool
  updateSnapshot :: updateState
  snapshotData :: "(string \<times> jsvalue) list"
  inlineSnapshots :: "queuedInline list"
  uncheckedKeys :: "string list"
  added :: nat
  matched :: nat
  unmatched :: nat
  updated :: nat

text \<open>The constructor, from what \<^verbatim>\<open>getSnapshotData\<close> returned.\<close>

definition newSnapshotState ::
  "(string \<times> jsvalue) list \<Rightarrow> bool \<Rightarrow> updateState \<Rightarrow> SnapshotState" where
  "newSnapshotState dat dirty0 upd =
     \<lparr>counters = Map.empty, dirty = dirty0, updateSnapshot = upd, snapshotData = dat,
      inlineSnapshots = [], uncheckedKeys = map fst dat,
      added = 0, matched = 0, unmatched = 0, updated = 0\<rparr>"

text \<open>\<^verbatim>\<open>this._snapshotData[key]\<close>.\<close>

definition dataGet :: "(string \<times> jsvalue) list \<Rightarrow> string \<Rightarrow> jsvalue" where
  "dataGet dat k = (case map_of dat k of None \<Rightarrow> VUndefined | Some v \<Rightarrow> v)"

definition markSnapshotsAsCheckedForTest :: "utils \<Rightarrow> SnapshotState \<Rightarrow> string \<Rightarrow> SnapshotState" where
  "markSnapshotsAsCheckedForTest u s name =
     s\<lparr>uncheckedKeys := filter (\<lambda>k. keyToTestName u k \<noteq> name) (uncheckedKeys s)\<rparr>"

text \<open>
  \<^verbatim>\<open>_addSnapshot\<close>. \<open>topFrame\<close> is what \<^verbatim>\<open>getTopFrame\<close> made of the error's stack;
  \<open>None\<close> is the missing frame, and the exception leaves the state with the dirty flag set.
\<close>

definition addSnapshot ::
  "SnapshotState \<Rightarrow> string \<Rightarrow> jsvalue \<Rightarrow> bool \<Rightarrow> bool \<Rightarrow> frame option
     \<Rightarrow> SnapshotState \<times> error option" where
  "addSnapshot s k rcv isSerialized inline topFrame =
     (let s1 = s\<lparr>dirty := True\<rparr> in
      if inline then
        (case topFrame of
           None \<Rightarrow> (s1, Some CouldntInferStackFrame)
         | Some f \<Rightarrow>
             (s1\<lparr>inlineSnapshots := inlineSnapshots s1 @
                   [\<lparr>qFrame = f, qSerialized = isSerialized, qSnapshot = rcv\<rparr>]\<rparr>, None))
      else (s1\<lparr>snapshotData := AList.update k rcv (snapshotData s1)\<rparr>, None))"

text \<open>\<^verbatim>\<open>clear\<close>. Its first assignment stores in \<^verbatim>\<open>_snapshotData\<close> the object that
  is there already; \<^verbatim>\<open>_index\<close> is never read.\<close>

definition clear :: "SnapshotState \<Rightarrow> SnapshotState" where
  "clear s = s\<lparr>inlineSnapshots := [], counters := Map.empty,
               added := 0, matched := 0, unmatched := 0, updated := 0\<rparr>"

record SaveStatus =
  deleted :: bool
  saved :: bool

text \<open>What \<^verbatim>\<open>save\<close> has done to the companion file when it returns or raises.\<close>

datatype persistence =
    SaveSnapshotFile "(string \<times> jsvalue) list"
  | UnlinkSync

text \<open>
  The call \<^verbatim>\<open>saveInlineSnapshots(this._inlineSnapshots, this._prettierPath)\<close> in
  \<^verbatim>\<open>save\<close>. It gives two of the three parameters of \<^verbatim>\<open>saveInlineSnapshots\<close>, so
  \<^verbatim>\<open>babelTraverse\<close> is undefined. The queue is not empty at that call, so the loop
  over the files has a first file. For that file semver, the file system and Babel's
  parser run first (\<open>external\<close> is the exception that one of them threw, if any); then
  \<^verbatim>\<open>traverseAst\<close> calls \<^verbatim>\<open>babelTraverse\<close>, which is no function. The call raises
  in every case, and before any \<^verbatim>\<open>writeFileSync\<close>: the result is the exception.
\<close>

definition saveInlineSnapshotsCall :: "error option \<Rightarrow> error" where
  "saveInlineSnapshotsCall external = (case external of Some e \<Rightarrow> e | None \<Rightarrow> NotAFunction)"

text \<open>
  \<^verbatim>\<open>save\<close>: the state after it, what it has done to the companion file, and its
  outcome: the status, or the exception of the patcher call, which leaves before
  \<^verbatim>\<open>status.saved = true\<close>. \<open>fileExists\<close> is
  \<^verbatim>\<open>fs.existsSync(this._snapshotPath)\<close>.
\<close>

definition save ::
  "bool \<Rightarrow> error option \<Rightarrow> SnapshotState
     \<Rightarrow> SnapshotState \<times> persistence list \<times> (error + SaveStatus)" where
  "save fileExists external s =
     (let hasExternalSnapshots = (snapshotData s \<noteq> []);
          hasInlineSnapshots = (inlineSnapshots s \<noteq> []);
          isEmpty = (\<not> hasExternalSnapshots \<and> \<not> hasInlineSnapshots)
      in if (dirty s \<or> uncheckedKeys s \<noteq> []) \<and> \<not> isEmpty then
           (let written = (if hasExternalSnapshots then [SaveSnapshotFile (snapshotData s)] else [])
            in if hasInlineSnapshots then (s, written, Inl (saveInlineSnapshotsCall external))
               else (s, written, Inr \<lparr>deleted = False, saved = True\<rparr>))
         else if \<not> hasExternalSnapshots \<and> fileExists then
           (s, if updateSnapshot s = UpdateAll then [UnlinkSync] else [],
            Inr \<lparr>deleted = True, saved = False\<rparr>)
         else (s, [], Inr \<lparr>deleted = False, saved = False\<rparr>))"


definition removeUncheckedKeys :: "SnapshotState \<Rightarrow> SnapshotState" where
  "removeUncheckedKeys s =
     (if updateSnapshot s = UpdateAll \<and> uncheckedKeys s \<noteq> [] then
        s\<lparr>dirty := True,
          snapshotData := fold AList.delete (uncheckedKeys s) (snapshotData s),
          uncheckedKeys := []\<rparr>
      else s)"

record SnapshotMatchOptions =
  testName :: string
  received :: jsvalue
  key :: "string option"
  serialized :: bool
  inlineSnapshot :: "string option"
  isInline :: bool
  topFrame :: "frame option"
  hasInlineSnapshot :: bool

record SnapshotReturnOptions =
  rActual :: jsvalue
  rActualSerialized :: string
  rCount :: nat
  rExpected :: jsvalue
  rExpectedSerialized :: string
  rHasSnapshot :: bool
  rKey :: string
  rPass :: bool

text \<open>The counter step and the key shared by \<^verbatim>\<open>match\<close> and \<^verbatim>\<open>fail\<close>;
  an absent or empty \<^verbatim>\<open>key\<close> is derived from the test name.\<close>

definition nextCount :: "SnapshotState \<Rightarrow> string \<Rightarrow> nat" where
  "nextCount s name = (case counters s name of None \<Rightarrow> 0 | Some c \<Rightarrow> c) + 1"

definition resolveKey :: "utils \<Rightarrow> string option \<Rightarrow> string \<Rightarrow> nat \<Rightarrow> string" where
  "resolveKey u k name cnt =
     (case k of
        None \<Rightarrow> testNameToKey u name cnt
      | Some k' \<Rightarrow> if k' = [] then testNameToKey u name cnt else k')"

text \<open>
  \<^verbatim>\<open>removeExtraLineBreaks(expected as string)\<close>: the cast is unchecked; a stored value
  that is no string is handed on as it is.
\<close>

definition removeExtraLineBreaksOf :: "utils \<Rightarrow> jsvalue \<Rightarrow> jsvalue" where
  "removeExtraLineBreaksOf u v =
     (case v of VStr t \<Rightarrow> VStr (removeExtraLineBreaks u t) | _ \<Rightarrow> v)"

text \<open>
  \<^verbatim>\<open>match\<close>. Each \<^verbatim>\<open>const\<close> of its body is a definition of the same name
  (prefixed where the name is taken), as a function of the state at entry and of the
  call's options; \<open>fileExists\<close> is \<^verbatim>\<open>fs.existsSync(this._snapshotPath)\<close>.
\<close>

definition matchCount :: "SnapshotState \<Rightarrow> SnapshotMatchOptions \<Rightarrow> nat" where
  "matchCount s opts = nextCount s (testName opts)"

definition matchKey :: "utils \<Rightarrow> SnapshotState \<Rightarrow> SnapshotMatchOptions \<Rightarrow> string" where
  "matchKey u s opts = resolveKey u (key opts) (testName opts) (matchCount s opts)"

text \<open>The state once the counter is set and the key is dropped from the unchecked set.\<close>

definition counted :: "utils \<Rightarrow> SnapshotState \<Rightarrow> SnapshotMatchOptions \<Rightarrow> SnapshotState" where
  "counted u s opts =
     (let s1 = s\<lparr>counters := (counters s)(testName opts \<mapsto> matchCount s opts)\<rparr>
      in if \<not> (isInline opts \<and> dataGet (snapshotData s1) (matchKey u s opts) \<noteq> VUndefined)
         then s1\<lparr>uncheckedKeys := removeAll (matchKey u s opts) (uncheckedKeys s1)\<rparr>
         else s1)"

text \<open>\<^verbatim>\<open>valueSerialized\<close>: \<^verbatim>\<open>addExtraLineBreaks(serialize(received))\<close> in both modes.\<close>

definition valueSerialized :: "utils \<Rightarrow> SnapshotMatchOptions \<Rightarrow> string" where
  "valueSerialized u opts = addExtraLineBreaks u (serialize u (received opts))"

definition matchValue :: "utils \<Rightarrow> SnapshotMatchOptions \<Rightarrow> jsvalue" where
  "matchValue u opts =
     (if serialized opts then VStr (addExtraLineBreaks u (serialize u (received opts)))
      else received opts)"

definition matchExpected :: "utils \<Rightarrow> SnapshotState \<Rightarrow> SnapshotMatchOptions \<Rightarrow> jsvalue" where
  "matchExpected u s opts =
     (if isInline opts
      then (case inlineSnapshot opts of None \<Rightarrow> VUndefined | Some t \<Rightarrow> VStr t)
      else dataGet (snapshotData s) (matchKey u s opts))"

definition expectedSerialized :: "utils \<Rightarrow> SnapshotState \<Rightarrow> SnapshotMatchOptions \<Rightarrow> string" where
  "expectedSerialized u s opts = addExtraLineBreaks u (serialize u (matchExpected u s opts))"

definition pass :: "utils \<Rightarrow> SnapshotState \<Rightarrow> SnapshotMatchOptions \<Rightarrow> bool" where
  "pass u s opts =
     (if serialized opts then strictEq (matchExpected u s opts) (matchValue u opts)
      else compare (received opts) (matchExpected u s opts))"

definition hasSnapshot :: "utils \<Rightarrow> SnapshotState \<Rightarrow> SnapshotMatchOptions \<Rightarrow> bool" where
  "hasSnapshot u s opts =
     (if isInline opts then hasInlineSnapshot opts
      else matchKey u s opts \<in> set (map fst (snapshotData s)))"

definition snapshotIsPersisted :: "bool \<Rightarrow> SnapshotMatchOptions \<Rightarrow> bool" where
  "snapshotIsPersisted fileExists opts = (isInline opts \<or> fileExists)"

definition defaultExpected :: "utils \<Rightarrow> SnapshotState \<Rightarrow> SnapshotMatchOptions \<Rightarrow> jsvalue" where
  "defaultExpected u s opts =
     (if serialized opts then VStr []
      else if hasSnapshot u s opts then matchExpected u s opts else VUndefined)"

definition defaultActual :: "utils \<Rightarrow> SnapshotState \<Rightarrow> SnapshotMatchOptions \<Rightarrow> jsvalue" where
  "defaultActual u s opts =
     (if serialized opts then VStr []
      else if hasSnapshot u s opts then received opts else VUndefined)"

text \<open>The state after \<^verbatim>\<open>if (pass && !isInline) this._snapshotData[key] = value\<close>.\<close>

definition restored :: "utils \<Rightarrow> SnapshotState \<Rightarrow> SnapshotMatchOptions \<Rightarrow> SnapshotState" where
  "restored u s opts =
     (let s2 = counted u s opts
      in if pass u s opts \<and> \<not> isInline opts
         then s2\<lparr>snapshotData := AList.update (matchKey u s opts) (matchValue u opts) (snapshotData s2)\<rparr>
         else s2)"

text \<open>The two result objects: the passing one (returned at three places) and the failing one.\<close>

definition passResult :: "utils \<Rightarrow> SnapshotState \<Rightarrow> SnapshotMatchOptions \<Rightarrow> SnapshotReturnOptions" where
  "passResult u s opts =
     \<lparr>rActual = defaultActual u s opts, rActualSerialized = [], rCount = matchCount s opts,
      rExpected = defaultExpected u s opts, rExpectedSerialized = [],
      rHasSnapshot = hasSnapshot u s opts, rKey = matchKey u s opts, rPass = True\<rparr>"

definition failResult :: "utils \<Rightarrow> SnapshotState \<Rightarrow> SnapshotMatchOptions \<Rightarrow> SnapshotReturnOptions" where
  "failResult u s opts =
     \<lparr>rActual = (if serialized opts
                 then VStr (removeExtraLineBreaks u (addExtraLineBreaks u (serialize u (received opts))))
                 else received opts),
      rActualSerialized = removeExtraLineBreaks u (valueSerialized u opts),
      rCount = matchCount s opts,
      rExpected = (if hasSnapshot u s opts
                   then (if serialized opts
                         then removeExtraLineBreaksOf u (matchExpected u s opts)
                         else matchExpected u s opts)
                   else VUndefined),
      rExpectedSerialized = expectedSerialized u s opts,
      rHasSnapshot = hasSnapshot u s opts, rKey = matchKey u s opts, rPass = False\<rparr>"

text \<open>
  The write-or-report decision. The state comes back with the outcome: a result, or the
  exception of \<^verbatim>\<open>_addSnapshot\<close> together with the state as the assignments before
  the throw left it.
\<close>

definition match ::
  "utils \<Rightarrow> bool \<Rightarrow> SnapshotState \<Rightarrow> SnapshotMatchOptions
     \<Rightarrow> SnapshotState \<times> (error + SnapshotReturnOptions)" where
  "match u fileExists s opts =
     (let s3 = restored u s opts in
      if (hasSnapshot u s opts \<and> updateSnapshot s3 = UpdateAll) \<or>
         ((\<not> hasSnapshot u s opts \<or> \<not> snapshotIsPersisted fileExists opts) \<and>
          (updateSnapshot s3 = UpdateNew \<or> updateSnapshot s3 = UpdateAll)) then
        (if updateSnapshot s3 = UpdateAll then
           (if \<not> pass u s opts then
              (let s4 = (if hasSnapshot u s opts then s3\<lparr>updated := updated s3 + 1\<rparr>
                         else s3\<lparr>added := added s3 + 1\<rparr>)
               in case addSnapshot s4 (matchKey u s opts) (matchValue u opts)
                         (serialized opts) (isInline opts) (topFrame opts) of
                    (s5, Some e) \<Rightarrow> (s5, Inl e)
                  | (s5, None) \<Rightarrow> (s5, Inr (passResult u s opts)))
            else (s3\<lparr>matched := matched s3 + 1\<rparr>, Inr (passResult u s opts)))
         else
           (case addSnapshot s3 (matchKey u s opts) (matchValue u opts)
                   (serialized opts) (isInline opts) (topFrame opts) of
              (s4, Some e) \<Rightarrow> (s4, Inl e)
            | (s4, None) \<Rightarrow> (s4\<lparr>added := added s4 + 1\<rparr>, Inr (passResult u s opts))))
      else if \<not> pass u s opts then
        (s3\<lparr>unmatched := unmatched s3 + 1\<rparr>, Inr (failResult u s opts))
      else (s3\<lparr>matched := matched s3 + 1\<rparr>, Inr (passResult u s opts)))"

text \<open>\<^verbatim>\<open>fail\<close>: the new state and the resolved key. The parameter
  \<^verbatim>\<open>_received\<close> is unused.\<close>

definition fail :: "utils \<Rightarrow> SnapshotState \<Rightarrow> string \<Rightarrow> string option \<Rightarrow> SnapshotState \<times> string" where
  "fail u s name k0 =
     (let cnt = nextCount s name;
          s1 = s\<lparr>counters := (counters s)(name \<mapsto> cnt)\<rparr>;
          k = resolveKey u k0 name cnt;
          s2 = s1\<lparr>uncheckedKeys := removeAll k (uncheckedKeys s1)\<rparr>
      in (s2\<lparr>unmatched := unmatched s2 + 1\<rparr>, k))"

text \<open>
  A run of one test file: the calls made on one \<^verbatim>\<open>SnapshotState\<close>, in order. Each
  \<open>Match\<close> carries what \<^verbatim>\<open>fs.existsSync\<close> answers during that call. An exception
  ends the run.
\<close>

datatype call =
    Match bool SnapshotMatchOptions
  | Fail string "string option"
  | MarkSnapshotsAsCheckedForTest string
  | RemoveUncheckedKeys
  | Clear

fun step :: "utils \<Rightarrow> SnapshotState \<Rightarrow> call \<Rightarrow> SnapshotState \<times> error option" where
  "step u s (Match ex opts) =
     (case match u ex s opts of (s', Inl e) \<Rightarrow> (s', Some e) | (s', Inr r) \<Rightarrow> (s', None))"
| "step u s (Fail name k0) = (fst (fail u s name k0), None)"
| "step u s (MarkSnapshotsAsCheckedForTest name) = (markSnapshotsAsCheckedForTest u s name, None)"
| "step u s RemoveUncheckedKeys = (removeUncheckedKeys s, None)"
| "step u s Clear = (clear s, None)"

fun run :: "utils \<Rightarrow> SnapshotState \<Rightarrow> call list \<Rightarrow> SnapshotState \<times> error option" where
  "run u s [] = (s, None)"
| "run u s (c # cs) =
     (case step u s c of (s', Some e) \<Rightarrow> (s', Some e) | (s', None) \<Rightarrow> run u s' cs)"


definition totalsUnchanged :: "SnapshotState \<Rightarrow> SnapshotState \<Rightarrow> bool" where
  "totalsUnchanged s s' =
     (added s' = added s \<and> matched s' = matched s \<and>
      updated s' = updated s \<and> unmatched s' = unmatched s)"


section \<open>The inline patcher\<close>

text \<open>
  The parser, the traversal engine and the printer belong to Babel. What \<^verbatim>\<open>traverseAst\<close>
  reads of a parsed file is its call expressions in traversal order; of each, whether the
  callee is a member expression whose property is an identifier (and where that identifier
  starts), the arguments, and the node's text span.
\<close>

datatype argument = TemplateLiteral string | OtherArgument string

datatype callee = MemberIdentifier int int | OtherCallee

record callExpression =
  calleeOf :: callee
  arguments :: "argument list"
  nodeStart :: "nat option"
  nodeEnd :: "nat option"

text \<open>
  \<^verbatim>\<open>InlineSnapshot\<close> of inline\_snapshots.ts. \<open>node\<close> refers to the bound call
  expression by its index in the file's list of call expressions, so that the arguments
  written after the binding are seen through it.
\<close>

record InlineSnapshot =
  snapshot :: string
  frame :: frame
  node :: "nat option"

text \<open>
  \<^verbatim>\<open>groupSnapshotsBy\<close>: the reduce over the records, building the keyed object. The
  records are referred to by their indices in the \<^verbatim>\<open>snapshots\<close> array.
\<close>

definition groupSnapshotsBy :: "('a \<Rightarrow> 'k) \<Rightarrow> 'a list \<Rightarrow> ('k \<times> 'a list) list" where
  "groupSnapshotsBy createKey xs =
     foldl (\<lambda>object inlineSnapshot.
              AList.update (createKey inlineSnapshot)
                ((case map_of object (createKey inlineSnapshot) of None \<Rightarrow> [] | Some ys \<Rightarrow> ys)
                   @ [inlineSnapshot])
                object)
           [] xs"

text \<open>
  The key of a frame is \<^verbatim>\<open>`${line}:${column - 1}`\<close>, or the empty string when line
  or column is no number; the key of a call is \<^verbatim>\<open>`${line}:${column}`\<close>. A key is
  kept as the pair of numbers it prints, \<open>None\<close> for the empty string.
\<close>

definition frameKey :: "frame \<Rightarrow> (int \<times> int) option" where
  "frameKey f =
     (case (frameLine f, frameColumn f) of
        (Some l, Some c) \<Rightarrow> Some (l, c - 1)
      | _ \<Rightarrow> None)"

definition groupSnapshotsByFrame :: "InlineSnapshot list \<Rightarrow> ((int \<times> int) option \<times> nat list) list" where
  "groupSnapshotsByFrame snapshots =
     groupSnapshotsBy (\<lambda>i. frameKey (frame (snapshots ! i))) [0..<length snapshots]"

definition findIndexTemplateLiteral :: "argument list \<Rightarrow> nat option" where
  "findIndexTemplateLiteral args =
     (case filter (\<lambda>n. case args ! n of TemplateLiteral t \<Rightarrow> True | _ \<Rightarrow> False) [0..<length args] of
        [] \<Rightarrow> None
      | n # ns \<Rightarrow> Some n)"

text \<open>
  The \<^verbatim>\<open>CallExpression\<close> visitor at the call of index \<open>i\<close>. The traversal state is
  the records, the tree and \<^verbatim>\<open>remainingSnapshots\<close> (a set of snapshot texts).
  \<open>escape\<close> is \<^verbatim>\<open>escapeBacktickString\<close> of ./utils. A group is never empty.
\<close>

type_synonym traversal = "InlineSnapshot list \<times> callExpression list \<times> string list"

definition visitCallExpression ::
  "(string \<Rightarrow> string) \<Rightarrow> ((int \<times> int) option \<times> nat list) list \<Rightarrow> nat \<Rightarrow> traversal
     \<Rightarrow> error + traversal" where
  "visitCallExpression escape groupedSnapshots i st =
     (case st of (snapshots, ast, remainingSnapshots) \<Rightarrow>
        (case calleeOf (ast ! i) of
           OtherCallee \<Rightarrow> Inr st
         | MemberIdentifier l c \<Rightarrow>
             (case map_of groupedSnapshots (Some (l, c)) of
                None \<Rightarrow> Inr st
              | Some snapshotsForFrame \<Rightarrow>
                  if length snapshotsForFrame > 1 then Inl MultipleInlineSnapshots
                  else
                    (case snapshotsForFrame of
                       [] \<Rightarrow> Inr st
                     | j # js \<Rightarrow>
                         (let args = arguments (ast ! i);
                              snapshotIndex = findIndexTemplateLiteral args;
                              replacementNode = TemplateLiteral (escape (snapshot (snapshots ! j)));
                              args' = (case snapshotIndex of
                                         Some n \<Rightarrow> args[n := replacementNode]
                                       | None \<Rightarrow> args @ [replacementNode])
                          in Inr (snapshots[j := (snapshots ! j)\<lparr>node := Some i\<rparr>],
                                  ast[i := (ast ! i)\<lparr>arguments := args'\<rparr>],
                                  removeAll (snapshot (snapshots ! j)) remainingSnapshots))))))"

text \<open>The traversal: the visitor at every call expression in turn, until one throws.\<close>

fun traverseCalls ::
  "(string \<Rightarrow> string) \<Rightarrow> ((int \<times> int) option \<times> nat list) list \<Rightarrow> nat list \<Rightarrow> traversal
     \<Rightarrow> error + traversal" where
  "traverseCalls escape g [] st = Inr st"
| "traverseCalls escape g (i # rest) st =
     (case visitCallExpression escape g i st of
        Inl e \<Rightarrow> Inl e
      | Inr st' \<Rightarrow> traverseCalls escape g rest st')"

definition traverseAst ::
  "(string \<Rightarrow> string) \<Rightarrow> InlineSnapshot list \<Rightarrow> callExpression list
     \<Rightarrow> error + (InlineSnapshot list \<times> callExpression list)" where
  "traverseAst escape snapshots ast =
     (let groupedSnapshots = groupSnapshotsByFrame snapshots;
          remainingSnapshots = remdups (map snapshot snapshots)
      in case traverseCalls escape groupedSnapshots [0..<length ast]
                (snapshots, ast, remainingSnapshots) of
           Inl e \<Rightarrow> Inl e
         | Inr (snapshots', ast', remaining) \<Rightarrow>
             if remaining \<noteq> [] then Inl CouldntLocateAll else Inr (snapshots', ast'))"

text \<open>
  The callback of \<^verbatim>\<open>reduceRight\<close>: the bound node's span is replaced by its printed
  text. \<open>generate\<close> is Babel's printer.
\<close>

definition substitute ::
  "(callExpression \<Rightarrow> string) \<Rightarrow> callExpression list \<Rightarrow> string \<Rightarrow> InlineSnapshot
     \<Rightarrow> error + string" where
  "substitute generate ast sourceSoFar nextSnapshot =
     (case node nextSnapshot of
        None \<Rightarrow> Inl NoInsertLocation
      | Some i \<Rightarrow>
          (case (nodeStart (ast ! i), nodeEnd (ast ! i)) of
             (Some b, Some e) \<Rightarrow>
               Inr (take b sourceSoFar @ generate (ast ! i) @ drop e sourceSoFar)
           | _ \<Rightarrow> Inl NoInsertLocation))"

fun reduceRight ::
  "(callExpression \<Rightarrow> string) \<Rightarrow> callExpression list \<Rightarrow> InlineSnapshot list \<Rightarrow> string
     \<Rightarrow> error + string" where
  "reduceRight generate ast [] source = Inr source"
| "reduceRight generate ast (x # xs) source =
     (case reduceRight generate ast xs source of
        Inl e \<Rightarrow> Inl e
      | Inr sourceSoFar \<Rightarrow> substitute generate ast sourceSoFar x)"

text \<open>
  What \<^verbatim>\<open>saveSnapshotsForFile\<close> does to the source file: an exception leaves before the
  only \<^verbatim>\<open>writeFileSync\<close>; otherwise the file is written when the new text differs.
  \<open>ast\<close> is what Babel parsed from \<open>sourceFile\<close>.
\<close>

datatype fileOutcome = Raised error | Unchanged | Written string

definition saveSnapshotsForFile ::
  "(string \<Rightarrow> string) \<Rightarrow> (callExpression \<Rightarrow> string) \<Rightarrow> InlineSnapshot list \<Rightarrow> string
     \<Rightarrow> callExpression list \<Rightarrow> fileOutcome" where
  "saveSnapshotsForFile escape generate snapshots sourceFile ast =
     (case traverseAst escape snapshots ast of
        Inl e \<Rightarrow> Raised e
      | Inr (snapshots', ast') \<Rightarrow>
          (case reduceRight generate ast' snapshots' sourceFile of
             Inl e \<Rightarrow> Raised e
           | Inr newSourceFile \<Rightarrow>
               if newSourceFile \<noteq> sourceFile then Written newSourceFile else Unchanged))"


section \<open>The literal generator\<close>

text \<open>
  The nodes that \<^verbatim>\<open>generateAstFromValue\<close> builds with the builders of @babel/types;
  a node is the builder call that made it. \<^verbatim>\<open>t.identifier\<close> is called with a string
  everywhere but in \<^verbatim>\<open>getSymbolAstFromStandardSymbol\<close>, which hands it the array
  that \<^verbatim>\<open>RegExp.exec\<close> returned.
\<close>

datatype identifierName = Name string | MatchArray "string list"

datatype GeneratedAst =
    Identifier identifierName
  | NullLiteral
  | StringLiteral string
  | NumericLiteral jsnumber
  | BooleanLiteral bool
  | CallExpression GeneratedAst "GeneratedAst list"
  | MemberExpression GeneratedAst GeneratedAst
  | ArrayExpression "GeneratedAst list"
  | ObjectExpression "(GeneratedAst \<times> GeneratedAst) list"
  | TemplateLiteralOf string

text \<open>The line terminators that fit the character type (line feed, carriage return);
  \<^verbatim>\<open>.\<close> matches any other character.\<close>

definition lineTerminator :: "char \<Rightarrow> bool" where
  "lineTerminator c = (c = CHR 0x0A \<or> c = CHR 0x0D)"

text \<open>
  The pattern \<^verbatim>\<open>/Symbol\(Symbol\.(.+)\)/\<close> tried at the start of a text: after the
  fixed prefix, the group takes the longest non-empty run of characters other than line
  terminators that a closing parenthesis follows. The result is the group.
\<close>

definition matchHere :: "string \<Rightarrow> string option" where
  "matchHere s =
     (if take 14 s = ''Symbol(Symbol.'' then
        (case dropWhile (\<lambda>c. c \<noteq> CHR 0x29)
                (rev (takeWhile (\<lambda>c. \<not> lineTerminator c) (drop 14 s))) of
           [] \<Rightarrow> None
         | p # g \<Rightarrow> if g = [] then None else Some (rev g))
      else None)"

text \<open>\<^verbatim>\<open>exec\<close>: the leftmost match, as the array of the matched text and the group.\<close>

fun regexExec :: "string \<Rightarrow> string list option" where
  "regexExec [] = None"
| "regexExec (c # cs) =
     (case matchHere (c # cs) of
        Some g \<Rightarrow> Some [''Symbol(Symbol.'' @ g @ '')'', g]
      | None \<Rightarrow> regexExec cs)"

definition getSymbolAstFromStandardSymbol :: "string option \<Rightarrow> GeneratedAst option" where
  "getSymbolAstFromStandardSymbol d =
     (case regexExec (symbolToString d) of
        None \<Rightarrow> None
      | Some name \<Rightarrow> Some (MemberExpression (Identifier (Name ''Symbol'')) (Identifier (MatchArray name))))"

text \<open>
  \<^verbatim>\<open>generateAstFromValue\<close>, one equation for each branch that a \<^verbatim>\<open>SnapshotValue\<close>
  can reach: the type has no bigint, and a record with string keys is no iterable.
\<close>

fun generateAstFromValue :: "jsvalue \<Rightarrow> GeneratedAst" where
  "generateAstFromValue VUndefined = Identifier (Name ''undefined'')"
| "generateAstFromValue VNull = NullLiteral"
| "generateAstFromValue (VStr s) = StringLiteral s"
| "generateAstFromValue (VNum n) = NumericLiteral n"
| "generateAstFromValue (VBool b) = BooleanLiteral b"
| "generateAstFromValue (VFun a) =
     CallExpression (MemberExpression (Identifier (Name ''expect'')) (Identifier (Name ''any'')))
       [Identifier (Name ''Function'')]"
| "generateAstFromValue (VObj a True ps) =
     ArrayExpression (map (\<lambda>p. generateAstFromValue (snd p)) ps)"
| "generateAstFromValue (VSym a d) =
     (case getSymbolAstFromStandardSymbol d of
        Some referencedSymbol \<Rightarrow> referencedSymbol
      | None \<Rightarrow> StringLiteral (symbolToString d))"
| "generateAstFromValue (VObj a False ps) =
     ObjectExpression (map (\<lambda>p. (Identifier (Name (fst p)), generateAstFromValue (snd p))) ps)"

text \<open>
  \<^verbatim>\<open>generateSnapshot\<close>. In serialized mode the value is cast to a string unchecked;
  \<open>None\<close> stands for a value that is no string, on which \<^verbatim>\<open>escapeBacktickString\<close>
  has no result.
\<close>

definition generateSnapshot :: "(string \<Rightarrow> string) \<Rightarrow> jsvalue \<Rightarrow> bool \<Rightarrow> GeneratedAst option" where
  "generateSnapshot escape v isSerialized =
     (if isSerialized
      then (case v of VStr t \<Rightarrow> Some (TemplateLiteralOf (escape t)) | _ \<Rightarrow> None)
      else Some (generateAstFromValue v))"

section \<open>Sample inputs\<close>

text \<open>
  Modelled from the spec: \<^verbatim>\<open>testNameToKey\<close> is not in the sources; keys are
  "<test name> <1-based occurrence index>". The other helpers of the sample are the
  simplest functions of their types.
\<close>

function decimal :: "nat \<Rightarrow> string" where
  "decimal n =
     (if n < 10 then [''0123456789'' ! n]
      else decimal (n div 10) @ [''0123456789'' ! (n mod 10)])"
  by pat_completeness auto
termination
  by (relation "measure id") auto

declare decimal.simps [simp del]

definition sampleUtils :: utils where
  "sampleUtils =
     \<lparr>testNameToKey = (\<lambda>name cnt. name @ '' '' @ decimal cnt),
      keyToTestName = (\<lambda>k. takeWhile (\<lambda>c. c \<noteq> CHR 0x20) k),
      serialize = (\<lambda>v. case v of VStr t \<Rightarrow> t | _ \<Rightarrow> ''?''),
      addExtraLineBreaks = (\<lambda>t. t),
      removeExtraLineBreaks = (\<lambda>t. t)\<rparr>"

definition externalCall :: "string \<Rightarrow> jsvalue \<Rightarrow> bool \<Rightarrow> SnapshotMatchOptions" where
  "externalCall name v isSerialized =
     \<lparr>testName = name, received = v, key = None, serialized = isSerialized,
      inlineSnapshot = None, isInline = False, topFrame = None, hasInlineSnapshot = False\<rparr>"

definition inlineCall :: "string \<Rightarrow> jsvalue \<Rightarrow> frame option \<Rightarrow> SnapshotMatchOptions" where
  "inlineCall name v f =
     \<lparr>testName = name, received = v, key = None, serialized = True,
      inlineSnapshot = None, isInline = True, topFrame = f, hasInlineSnapshot = False\<rparr>"

definition sampleFrame :: "int \<Rightarrow> int \<Rightarrow> frame" where
  "sampleFrame l c = \<lparr>frameFile = ''a.test.js'', frameLine = Some l, frameColumn = Some c\<rparr>"

definition sampleCallExpression :: "int \<Rightarrow> int \<Rightarrow> nat \<Rightarrow> nat \<Rightarrow> callExpression" where
  "sampleCallExpression l c b e =
     \<lparr>calleeOf = MemberIdentifier l c, arguments = [], nodeStart = Some b, nodeEnd = Some e\<rparr>"


text \<open>Every match of the run is serialized or inline: none compares raw values
  against the companion file's.\<close>

definition serializedOnly :: "call list \<Rightarrow> bool" where
  "serializedOnly cs =
     list_all (\<lambda>c. case c of Match ex opts \<Rightarrow> serialized opts \<or> isInline opts | _ \<Rightarrow> True) cs"

section \<open>Properties of the comparator\<close>

lemma compareKeys_all:
  "compareKeys ps e = (\<forall>(k, v) \<in> set ps. compare v (getProp e k))"
  by (induction ps) (auto split: if_splits)

lemma wellFormedProps_all:
  "wellFormedProps ps = (\<forall>(k, v) \<in> set ps. wellFormed v)"
  by (induction ps) auto

text \<open>A record or an array compares equal to nothing but a record or an array at
  its own address.\<close>

lemma compare_record_needs_same_address:
  "compare (VObj a arr ps) e \<Longrightarrow> \<exists>arr' qs. e = VObj a arr' qs"
  by (cases e) (auto simp: compare.simps(1) split: if_splits)

text \<open>
  C1, at two records that hold the same single key with the same number at different
  addresses: every key of the received record compares equal against the expected
  record's value at that key and both sides count one key, yet \<open>compare\<close> is false,
  because the object branch falls through to \<^verbatim>\<open>received === expected\<close>.
\<close>

theorem compare_distinct_records_unequal:
  "compareKeys [(''a'', VNum (Finite 1))] (VObj 2 False [(''a'', VNum (Finite 1))]) \<and>
   length [(''a'', VNum (Finite 1))] = keyCount (VObj 2 False [(''a'', VNum (Finite 1))]) \<and>
   compare (VObj 1 False [(''a'', VNum (Finite 1))]) (VObj 2 False [(''a'', VNum (Finite 1))])
     = False"
  by (simp add: compare.simps(1))

text \<open>
  C7: the comparator is reflexive. For every well-formed value \<open>v\<close> (undefined, null,
  a boolean, a number including NaN, a string, a symbol, a function, a record or an
  array, nested to any depth), \<open>compare v v\<close> is true. A self-referential record is
  no value of the type.
\<close>

theorem compare_reflexive: "wellFormed v \<Longrightarrow> compare v v = True"
proof (induction v)
  case (VObj a arr ps)
  have "compare x (getProp (VObj a arr ps) k)" if "(k, x) \<in> set ps" for k x
  proof -
    from VObj.prems have d: "distinct (map fst ps)" and w: "wellFormedProps ps" by simp_all
    from d that have "map_of ps k = Some x" by simp
    then have g: "getProp (VObj a arr ps) k = x" by simp
    from w that have "wellFormed x" by (auto simp: wellFormedProps_all)
    with VObj.IH [of "(k, x)" x] that have "compare x x" by simp
    with g show ?thesis by simp
  qed
  then have "compareKeys ps (VObj a arr ps)" by (auto simp: compareKeys_all)
  then show ?case by (simp add: compare.simps(1))
next
  case (VNum n)
  then show ?case by (cases n) (simp_all add: compare.simps(1))
qed (simp_all add: compare.simps(1))

theorem compare_reflexive_witness:
  "wellFormed (VObj 1 False [(''n'', VNum NaN), (''f'', VFun 2), (''s'', VSym 3 (Some ''id'')),
       (''xs'', VObj 4 True [(''0'', VStr ''a''), (''1'', VNull)])]) \<and>
   compare (VObj 1 False [(''n'', VNum NaN), (''f'', VFun 2), (''s'', VSym 3 (Some ''id'')),
       (''xs'', VObj 4 True [(''0'', VStr ''a''), (''1'', VNull)])])
     (VObj 1 False [(''n'', VNum NaN), (''f'', VFun 2), (''s'', VSym 3 (Some ''id'')),
       (''xs'', VObj 4 True [(''0'', VStr ''a''), (''1'', VNull)])]) = True"
proof -
  have w: "wellFormed (VObj 1 False [(''n'', VNum NaN), (''f'', VFun 2), (''s'', VSym 3 (Some ''id'')),
       (''xs'', VObj 4 True [(''0'', VStr ''a''), (''1'', VNull)])])"
    by simp
  from compare_reflexive [OF w] w show ?thesis by simp
qed

section \<open>Properties of the matcher state\<close>

lemma decimal_1: "decimal 1 = ''1''" "decimal (Suc 0) = ''1''"
  by (simp_all add: decimal.simps [of 1] decimal.simps [of "Suc 0"])

lemmas run_defs =
  match_def restored_def counted_def pass_def hasSnapshot_def matchKey_def matchCount_def
  nextCount_def resolveKey_def matchValue_def matchExpected_def snapshotIsPersisted_def
  addSnapshot_def passResult_def failResult_def defaultActual_def defaultExpected_def
  valueSerialized_def expectedSerialized_def removeExtraLineBreaksOf_def dataGet_def
  fail_def save_def saveInlineSnapshotsCall_def newSnapshotState_def sampleUtils_def
  externalCall_def inlineCall_def
  decimal_1 Let_def

lemma strictEq_VStr: "strictEq e (VStr t) \<Longrightarrow> e = VStr t"
  by (cases e) simp_all

lemma dataGet_VStr: "dataGet dat k = VStr t \<Longrightarrow> map_of dat k = Some (VStr t)"
  by (auto simp: dataGet_def split: option.splits)

lemma counted_fields [simp]:
  "added (counted u s opts) = added s"
  "matched (counted u s opts) = matched s"
  "updated (counted u s opts) = updated s"
  "unmatched (counted u s opts) = unmatched s"
  "dirty (counted u s opts) = dirty s"
  "updateSnapshot (counted u s opts) = updateSnapshot s"
  "inlineSnapshots (counted u s opts) = inlineSnapshots s"
  "snapshotData (counted u s opts) = snapshotData s"
  by (simp_all add: counted_def Let_def)

lemma restored_fields [simp]:
  "added (restored u s opts) = added s"
  "matched (restored u s opts) = matched s"
  "updated (restored u s opts) = updated s"
  "unmatched (restored u s opts) = unmatched s"
  "dirty (restored u s opts) = dirty s"
  "updateSnapshot (restored u s opts) = updateSnapshot s"
  "inlineSnapshots (restored u s opts) = inlineSnapshots s"
  by (simp_all add: restored_def Let_def)

lemma restored_data:
  "snapshotData (restored u s opts) =
     (if pass u s opts \<and> \<not> isInline opts
      then AList.update (matchKey u s opts) (matchValue u opts) (snapshotData s)
      else snapshotData s)"
  by (simp add: restored_def Let_def)

text \<open>In serialized mode a passing comparison stores the text that is stored already.\<close>

lemma restored_data_serialized:
  assumes "serialized opts \<or> isInline opts"
  shows "snapshotData (restored u s opts) = snapshotData s"
proof (cases "pass u s opts \<and> \<not> isInline opts")
  case False
  then show ?thesis by (auto simp: restored_data)
next
  case True
  with assms have ser: "serialized opts" and p: "pass u s opts" and ext: "\<not> isInline opts"
    by auto
  let ?t = "addExtraLineBreaks u (serialize u (received opts))"
  from ser have v: "matchValue u opts = VStr ?t" by (simp add: matchValue_def)
  from p ser v have "strictEq (matchExpected u s opts) (VStr ?t)" by (simp add: pass_def)
  then have "matchExpected u s opts = VStr ?t" by (rule strictEq_VStr)
  with ext have "dataGet (snapshotData s) (matchKey u s opts) = VStr ?t"
    by (simp add: matchExpected_def)
  then have "map_of (snapshotData s) (matchKey u s opts) = Some (VStr ?t)"
    by (rule dataGet_VStr)
  then have "AList.update (matchKey u s opts) (VStr ?t) (snapshotData s) = snapshotData s"
    by (rule AList.update_triv)
  with True v show ?thesis by (simp add: restored_data)
qed

lemma match_none:
  assumes "updateSnapshot s = UpdateNone"
  shows "match u ex s opts =
     (if pass u s opts
      then ((restored u s opts)\<lparr>matched := matched s + 1\<rparr>, Inr (passResult u s opts))
      else ((restored u s opts)\<lparr>unmatched := unmatched s + 1\<rparr>, Inr (failResult u s opts)))"
  using assms by (simp add: match_def Let_def)

lemma match_new:
  assumes "updateSnapshot s = UpdateNew"
  shows "match u ex s opts =
     (if \<not> hasSnapshot u s opts \<or> \<not> snapshotIsPersisted ex opts then
        (if isInline opts \<and> topFrame opts = None
         then ((restored u s opts)\<lparr>dirty := True\<rparr>, Inl CouldntInferStackFrame)
         else (fst (addSnapshot (restored u s opts) (matchKey u s opts) (matchValue u opts)
                      (serialized opts) (isInline opts) (topFrame opts))
                 \<lparr>added := added s + 1\<rparr>,
               Inr (passResult u s opts)))
      else if pass u s opts
      then ((restored u s opts)\<lparr>matched := matched s + 1\<rparr>, Inr (passResult u s opts))
      else ((restored u s opts)\<lparr>unmatched := unmatched s + 1\<rparr>, Inr (failResult u s opts)))"
  using assms by (simp add: match_def Let_def addSnapshot_def split: option.splits)

lemma step_none:
  assumes "updateSnapshot s = UpdateNone" and "step u s c = (s', err)"
  shows "err = None \<and> updateSnapshot s' = UpdateNone \<and> dirty s' = dirty s \<and>
         (inlineSnapshots s = [] \<longrightarrow> inlineSnapshots s' = []) \<and>
         (added s = 0 \<longrightarrow> added s' = 0) \<and> (updated s = 0 \<longrightarrow> updated s' = 0) \<and>
         (serializedOnly [c] \<longrightarrow> snapshotData s' = snapshotData s)"
proof (cases c)
  case (Match ex opts)
  with assms show ?thesis
    by (auto simp: match_none serializedOnly_def restored_data_serialized split: if_splits)
next
  case (Fail name k0)
  with assms show ?thesis by (auto simp: fail_def Let_def)
next
  case (MarkSnapshotsAsCheckedForTest name)
  with assms show ?thesis by (auto simp: markSnapshotsAsCheckedForTest_def)
next
  case RemoveUncheckedKeys
  with assms show ?thesis by (auto simp: removeUncheckedKeys_def)
next
  case Clear
  with assms show ?thesis by (auto simp: clear_def)
qed

lemma run_none:
  "updateSnapshot s = UpdateNone \<Longrightarrow> run u s cs = (s', err) \<Longrightarrow>
     err = None \<and> updateSnapshot s' = UpdateNone \<and> dirty s' = dirty s \<and>
     (inlineSnapshots s = [] \<longrightarrow> inlineSnapshots s' = []) \<and>
     (added s = 0 \<longrightarrow> added s' = 0) \<and> (updated s = 0 \<longrightarrow> updated s' = 0) \<and>
     (serializedOnly cs \<longrightarrow> snapshotData s' = snapshotData s)"
proof (induction cs arbitrary: s)
  case Nil
  then show ?case by simp
next
  case (Cons c cs)
  obtain s1 e1 where st: "step u s c = (s1, e1)" by (cases "step u s c")
  from step_none [OF Cons.prems(1) st]
  have e1: "e1 = None" and u1: "updateSnapshot s1 = UpdateNone" and d1: "dirty s1 = dirty s"
    and i1: "inlineSnapshots s = [] \<longrightarrow> inlineSnapshots s1 = []"
    and a1: "added s = 0 \<longrightarrow> added s1 = 0" and p1: "updated s = 0 \<longrightarrow> updated s1 = 0"
    and m1: "serializedOnly [c] \<longrightarrow> snapshotData s1 = snapshotData s"
    by simp_all
  from Cons.prems(2) st e1 have r: "run u s1 cs = (s', err)" by simp
  from Cons.IH [OF u1 r] d1 i1 a1 p1 m1 show ?case
    by (auto simp: serializedOnly_def)
qed

text \<open>What one match does under policy none, at any state.\<close>

lemma match_none_call:
  assumes "updateSnapshot s = UpdateNone"
  shows "snapshotData (fst (match u ex s opts)) =
           (if pass u s opts \<and> \<not> serialized opts \<and> \<not> isInline opts
            then AList.update (matchKey u s opts) (received opts) (snapshotData s)
            else snapshotData s)"
    and "inlineSnapshots (fst (match u ex s opts)) = inlineSnapshots s"
    and "dirty (fst (match u ex s opts)) = dirty s"
    and "snd (match u ex s opts) =
           Inr (if pass u s opts then passResult u s opts else failResult u s opts)"
proof -
  show "snapshotData (fst (match u ex s opts)) =
           (if pass u s opts \<and> \<not> serialized opts \<and> \<not> isInline opts
            then AList.update (matchKey u s opts) (received opts) (snapshotData s)
            else snapshotData s)"
  proof (cases "serialized opts \<or> isInline opts")
    case True
    then show ?thesis
      by (auto simp: match_none [OF assms] restored_data_serialized)
  next
    case False
    then show ?thesis
      by (simp add: match_none [OF assms] restored_data matchValue_def)
  qed
  show "inlineSnapshots (fst (match u ex s opts)) = inlineSnapshots s"
    by (simp add: match_none [OF assms])
  show "dirty (fst (match u ex s opts)) = dirty s"
    by (simp add: match_none [OF assms])
  show "snd (match u ex s opts) =
           Inr (if pass u s opts then passResult u s opts else failResult u s opts)"
    by (simp add: match_none [OF assms])
qed

text \<open>
  C2, as the code has it. Let \<open>s'\<close> be the state that a run under update policy none
  has reached from a freshly constructed state; every match of every such run is made at
  such a state. Up to there no call has raised; the inline queue is empty; the dirty flag
  is as loaded; added and updated are zero; and when every match so far was serialized or
  inline the snapshot mapping is exactly as loaded. A match made at \<open>s'\<close> returns a
  result, leaves the inline queue empty and the dirty flag as loaded, and leaves the
  snapshot mapping as it is, with one exception: a passing raw external comparison stores
  the received value under its key. A save made at \<open>s'\<close> does not raise, never calls the
  inline patcher and never removes the companion file; it does persist the companion
  file, whenever the mapping is non-empty and the loaded data was dirty or an unchecked
  key remains.
\<close>

theorem none_never_takes_write_decision:
  assumes "run u (newSnapshotState dat d UpdateNone) cs = (s', err)"
  shows "err = None \<and> inlineSnapshots s' = [] \<and> dirty s' = d \<and>
     added s' = 0 \<and> updated s' = 0 \<and>
     (serializedOnly cs \<longrightarrow> snapshotData s' = dat) \<and>
     snd (match u fe s' opts) =
       Inr (if pass u s' opts then passResult u s' opts else failResult u s' opts) \<and>
     snapshotData (fst (match u fe s' opts)) =
       (if pass u s' opts \<and> \<not> serialized opts \<and> \<not> isInline opts
        then AList.update (matchKey u s' opts) (received opts) (snapshotData s')
        else snapshotData s') \<and>
     inlineSnapshots (fst (match u fe s' opts)) = [] \<and>
     dirty (fst (match u fe s' opts)) = d \<and>
     save ex ext s' =
       (if (d \<or> uncheckedKeys s' \<noteq> []) \<and> snapshotData s' \<noteq> []
        then (s', [SaveSnapshotFile (snapshotData s')], Inr \<lparr>deleted = False, saved = True\<rparr>)
        else (s', [], Inr \<lparr>deleted = (snapshotData s' = [] \<and> ex), saved = False\<rparr>))"
proof -
  have "updateSnapshot (newSnapshotState dat d UpdateNone) = UpdateNone"
    by (simp add: newSnapshotState_def)
  from run_none [OF this assms]
  have inv: "err = None" "updateSnapshot s' = UpdateNone" "dirty s' = d" "inlineSnapshots s' = []"
    "added s' = 0" "updated s' = 0" "serializedOnly cs \<longrightarrow> snapshotData s' = dat"
    by (simp_all add: newSnapshotState_def)
  from inv(2,3,4) have sv: "save ex ext s' =
       (if (d \<or> uncheckedKeys s' \<noteq> []) \<and> snapshotData s' \<noteq> []
        then (s', [SaveSnapshotFile (snapshotData s')], Inr \<lparr>deleted = False, saved = True\<rparr>)
        else (s', [], Inr \<lparr>deleted = (snapshotData s' = [] \<and> ex), saved = False\<rparr>))"
    by (simp add: save_def Let_def)
  note call = match_none_call [OF inv(2), of u fe opts]
  from call(2) inv(4) have q: "inlineSnapshots (fst (match u fe s' opts)) = []" by simp
  from call(3) inv(3) have f: "dirty (fst (match u fe s' opts)) = d" by simp
  from inv(1,3,4,5,6,7) call(4) call(1) q f sv show ?thesis by blast
qed

lemma sample_none_run:
  "run sampleUtils (newSnapshotState [(''a 1'', VStr ''x''), (''b 1'', VStr ''y'')] False UpdateNone)
     [Match True (externalCall ''a'' (VStr ''x'') True)] =
   (\<lparr>counters = [''a'' \<mapsto> 1], dirty = False, updateSnapshot = UpdateNone,
     snapshotData = [(''a 1'', VStr ''x''), (''b 1'', VStr ''y'')], inlineSnapshots = [],
     uncheckedKeys = [''b 1''], added = 0, matched = 1, unmatched = 0, updated = 0\<rparr>, None)"
  by (simp add: run_defs)

lemma sample_none_empty_run:
  "run sampleUtils (newSnapshotState [] False UpdateNone) [] =
     (newSnapshotState [] False UpdateNone, None)"
  by simp

theorem none_never_takes_write_decision_witness:
  "run sampleUtils (newSnapshotState [(''a 1'', VStr ''x''), (''b 1'', VStr ''y'')] False UpdateNone)
     [Match True (externalCall ''a'' (VStr ''x'') True)] =
   (\<lparr>counters = [''a'' \<mapsto> 1], dirty = False, updateSnapshot = UpdateNone,
     snapshotData = [(''a 1'', VStr ''x''), (''b 1'', VStr ''y'')], inlineSnapshots = [],
     uncheckedKeys = [''b 1''], added = 0, matched = 1, unmatched = 0, updated = 0\<rparr>, None) \<and>
   serializedOnly [Match True (externalCall ''a'' (VStr ''x'') True)] \<and>
   fst (snd (save True None
     \<lparr>counters = [''a'' \<mapsto> 1], dirty = False, updateSnapshot = UpdateNone,
      snapshotData = [(''a 1'', VStr ''x''), (''b 1'', VStr ''y'')], inlineSnapshots = [],
      uncheckedKeys = [''b 1''], added = 0, matched = 1, unmatched = 0, updated = 0\<rparr>)) =
     [SaveSnapshotFile [(''a 1'', VStr ''x''), (''b 1'', VStr ''y'')]] \<and>
   pass sampleUtils (newSnapshotState [] False UpdateNone) (externalCall ''c'' VUndefined False) \<and>
   snapshotData (fst (match sampleUtils True (newSnapshotState [] False UpdateNone)
      (externalCall ''c'' VUndefined False))) = [(''c 1'', VUndefined)] \<and>
   snapshotData (fst (match sampleUtils True (newSnapshotState [] False UpdateNone)
      (externalCall ''c'' (VNum (Finite 1)) False))) = []"
  using none_never_takes_write_decision [OF sample_none_run, where ex = True and ext = None]
    none_never_takes_write_decision [OF sample_none_empty_run, where fe = True
      and opts = "externalCall ''c'' VUndefined False"]
    none_never_takes_write_decision [OF sample_none_empty_run, where fe = True
      and opts = "externalCall ''c'' (VNum (Finite 1)) False"]
    sample_none_run
  by (simp add: serializedOnly_def run_defs compare.simps(1))

text \<open>
  C2 as stated fails twice under policy none. With one persisted key matched and one left
  unchecked, the save persists the companion file. And a passing raw comparison of
  \<^verbatim>\<open>undefined\<close> under a key that has no snapshot adds an entry to the mapping.
\<close>

theorem none_save_persists_and_match_adds_entry:
  "fst (snd (save True None (fst (run sampleUtils
      (newSnapshotState [(''a 1'', VStr ''x''), (''b 1'', VStr ''y'')] False UpdateNone)
      [Match True (externalCall ''a'' (VStr ''x'') True)])))) =
     [SaveSnapshotFile [(''a 1'', VStr ''x''), (''b 1'', VStr ''y'')]] \<and>
   snapshotData (fst (match sampleUtils True (newSnapshotState [] False UpdateNone)
      (externalCall ''c'' VUndefined False))) = [(''c 1'', VUndefined)]"
  by (simp add: run_defs compare.simps(1))

text \<open>
  C3, as the code has it. Under update policy new, a match whose key has no snapshot
  writes the snapshot and counts it as added, and nothing else, whether or not the
  companion file exists; the one exception is an inline match with no stack frame, which
  raises and leaves every total as it was. The unmatched total moves under policy new
  only when the key has a snapshot, the snapshot is persisted and the comparison fails.
\<close>

theorem new_absent_key_is_added:
  assumes "updateSnapshot s = UpdateNew"
  shows "(\<not> hasSnapshot u s opts \<longrightarrow>
           (case match u ex s opts of
              (s', Inr r) \<Rightarrow>
                rPass r \<and> dirty s' \<and> added s' = added s + 1 \<and> matched s' = matched s \<and>
                updated s' = updated s \<and> unmatched s' = unmatched s \<and>
                (if isInline opts
                 then inlineSnapshots s' = inlineSnapshots s @
                        [\<lparr>qFrame = the (topFrame opts), qSerialized = serialized opts,
                          qSnapshot = matchValue u opts\<rparr>] \<and> topFrame opts \<noteq> None
                 else map_of (snapshotData s') (matchKey u s opts) = Some (matchValue u opts))
            | (s', Inl e) \<Rightarrow>
                e = CouldntInferStackFrame \<and> isInline opts \<and> topFrame opts = None \<and>
                totalsUnchanged s s')) \<and>
         (unmatched (fst (match u ex s opts)) \<noteq> unmatched s \<longrightarrow>
            hasSnapshot u s opts \<and> snapshotIsPersisted ex opts \<and> \<not> pass u s opts)"
proof -
  have absent: "case match u ex s opts of
      (s', Inr r) \<Rightarrow>
        rPass r \<and> dirty s' \<and> added s' = added s + 1 \<and> matched s' = matched s \<and>
        updated s' = updated s \<and> unmatched s' = unmatched s \<and>
        (if isInline opts
         then inlineSnapshots s' = inlineSnapshots s @
                [\<lparr>qFrame = the (topFrame opts), qSerialized = serialized opts,
                  qSnapshot = matchValue u opts\<rparr>] \<and> topFrame opts \<noteq> None
         else map_of (snapshotData s') (matchKey u s opts) = Some (matchValue u opts))
    | (s', Inl e) \<Rightarrow>
        e = CouldntInferStackFrame \<and> isInline opts \<and> topFrame opts = None \<and>
        totalsUnchanged s s'"
    if "\<not> hasSnapshot u s opts"
    using that
    by (auto simp: match_new [OF assms] addSnapshot_def Let_def passResult_def
          totalsUnchanged_def AList.update_conv')
  have moved: "hasSnapshot u s opts \<and> snapshotIsPersisted ex opts \<and> \<not> pass u s opts"
    if "unmatched (fst (match u ex s opts)) \<noteq> unmatched s"
    using that
    by (auto simp: match_new [OF assms] addSnapshot_def Let_def split: if_splits option.splits)
  from absent moved show ?thesis by blast
qed

theorem new_absent_key_is_added_witness:
  "updateSnapshot (newSnapshotState [(''other 1'', VStr ''y'')] False UpdateNew) = UpdateNew \<and>
   \<not> hasSnapshot sampleUtils (newSnapshotState [(''other 1'', VStr ''y'')] False UpdateNew)
       (externalCall ''t'' (VStr ''x'') True) \<and>
   added (fst (match sampleUtils False (newSnapshotState [(''other 1'', VStr ''y'')] False UpdateNew)
       (externalCall ''t'' (VStr ''x'') True))) = 1 \<and>
   unmatched (fst (match sampleUtils False (newSnapshotState [(''other 1'', VStr ''y'')] False UpdateNew)
       (externalCall ''t'' (VStr ''x'') True))) = 0 \<and>
   map_of (snapshotData (fst (match sampleUtils False
       (newSnapshotState [(''other 1'', VStr ''y'')] False UpdateNew)
       (externalCall ''t'' (VStr ''x'') True)))) ''t 1'' = Some (VStr ''x'') \<and>
   unmatched (fst (match sampleUtils True (newSnapshotState [(''t 1'', VStr ''y'')] False UpdateNew)
       (externalCall ''t'' (VStr ''x'') True))) = 1 \<and>
   hasSnapshot sampleUtils (newSnapshotState [(''t 1'', VStr ''y'')] False UpdateNew)
       (externalCall ''t'' (VStr ''x'') True) \<and>
   snapshotIsPersisted True (externalCall ''t'' (VStr ''x'') True) \<and>
   \<not> pass sampleUtils (newSnapshotState [(''t 1'', VStr ''y'')] False UpdateNew)
       (externalCall ''t'' (VStr ''x'') True)"
  using new_absent_key_is_added [where s = "newSnapshotState [(''other 1'', VStr ''y'')] False UpdateNew"
      and u = sampleUtils and opts = "externalCall ''t'' (VStr ''x'') True" and ex = False]
    new_absent_key_is_added [where s = "newSnapshotState [(''t 1'', VStr ''y'')] False UpdateNew"
      and u = sampleUtils and opts = "externalCall ''t'' (VStr ''x'') True" and ex = True]
  by (simp add: run_defs)

text \<open>
  C3 as stated fails where the key is absent and the companion file is already persisted:
  the comparison would fail, yet the snapshot is written and counted as added, and
  unmatched stays zero.
\<close>

theorem new_absent_key_with_persisted_file:
  "\<not> hasSnapshot sampleUtils (newSnapshotState [(''other 1'', VStr ''y'')] False UpdateNew)
       (externalCall ''t'' (VStr ''x'') True) \<and>
   snapshotIsPersisted True (externalCall ''t'' (VStr ''x'') True) \<and>
   \<not> pass sampleUtils (newSnapshotState [(''other 1'', VStr ''y'')] False UpdateNew)
       (externalCall ''t'' (VStr ''x'') True) \<and>
   added (fst (match sampleUtils True (newSnapshotState [(''other 1'', VStr ''y'')] False UpdateNew)
       (externalCall ''t'' (VStr ''x'') True))) = 1 \<and>
   unmatched (fst (match sampleUtils True (newSnapshotState [(''other 1'', VStr ''y'')] False UpdateNew)
       (externalCall ''t'' (VStr ''x'') True))) = 0 \<and>
   snapshotData (fst (match sampleUtils True (newSnapshotState [(''other 1'', VStr ''y'')] False UpdateNew)
       (externalCall ''t'' (VStr ''x'') True))) = [(''other 1'', VStr ''y''), (''t 1'', VStr ''x'')]"
  by (simp add: run_defs)














section \<open>Properties of the inline patcher\<close>

lemma group_foldl:
  "map_of (foldl (\<lambda>object x. AList.update (f x)
              ((case map_of object (f x) of None \<Rightarrow> [] | Some ys \<Rightarrow> ys) @ [x]) object) acc xs) k =
     (if filter (\<lambda>x. f x = k) xs = [] then map_of acc k
      else Some ((case map_of acc k of None \<Rightarrow> [] | Some ys \<Rightarrow> ys) @ filter (\<lambda>x. f x = k) xs))"
proof (induction xs arbitrary: acc)
  case Nil
  then show ?case by simp
next
  case (Cons x xs)
  show ?case
    by (simp add: Cons.IH AList.update_conv')
qed

text \<open>The group of a key holds the records of that key, in order; no group is empty.\<close>

lemma groupSnapshotsBy_lookup:
  "map_of (groupSnapshotsBy f xs) k =
     (if filter (\<lambda>x. f x = k) xs = [] then None else Some (filter (\<lambda>x. f x = k) xs))"
  by (simp add: groupSnapshotsBy_def group_foldl)

lemma two_in_filter:
  assumes "i < n" "j < n" "i \<noteq> j" "P i" "P j"
  shows "length (filter P [0..<n]) > 1"
proof -
  have "{i, j} \<subseteq> set (filter P [0..<n])" using assms by auto
  then have "card {i, j} \<le> card (set (filter P [0..<n]))"
    by (intro card_mono) auto
  also have "\<dots> = length (filter P [0..<n])"
    by (rule distinct_card) simp
  finally show ?thesis using assms(3) by simp
qed

lemma visit_outcome:
  "visitCallExpression escape g i (snaps, ast, rem) = Inl e \<Longrightarrow> e = MultipleInlineSnapshots"
  by (auto simp: visitCallExpression_def Let_def
        split: callee.splits option.splits list.splits if_splits)

lemma map_update_same:
  "f (xs ! i) = v \<Longrightarrow> (map f xs)[i := v] = map f xs"
  by (cases "i < length xs") (simp_all add: list_update_same_conv list_update_beyond)

text \<open>The visitor rewrites arguments only: every callee stays what the parser made it.\<close>

lemma visit_keeps_callees:
  "visitCallExpression escape g i (snaps, ast, rem) = Inr (snaps', ast', rem') \<Longrightarrow>
     map calleeOf ast' = map calleeOf ast"
  by (auto simp: visitCallExpression_def Let_def map_update map_update_same
        split: callee.splits option.splits list.splits if_splits)

lemma visit_multiple:
  assumes "i < length ast" "calleeOf (ast ! i) = MemberIdentifier l c"
    and "map_of g (Some (l, c)) = Some grp" "length grp > 1"
  shows "visitCallExpression escape g i (snaps, ast, rem) = Inl MultipleInlineSnapshots"
  using assms by (simp add: visitCallExpression_def)

lemma traverse_multiple:
  assumes "n \<in> set is" "n < length cs" "cs ! n = MemberIdentifier l c"
    and "map_of g (Some (l, c)) = Some grp" "length grp > 1"
  shows "map calleeOf ast = cs \<Longrightarrow>
         traverseCalls escape g is (snaps, ast, rem) = Inl MultipleInlineSnapshots"
  using assms(1)
proof (induction "is" arbitrary: snaps ast rem)
  case Nil
  then show ?case by simp
next
  case (Cons i rest)
  show ?case
  proof (cases "visitCallExpression escape g i (snaps, ast, rem)")
    case (Inl e)
    then have "e = MultipleInlineSnapshots" by (rule visit_outcome)
    with Inl show ?thesis by simp
  next
    case (Inr st')
    obtain snaps' ast' rem' where st': "st' = (snaps', ast', rem')" by (cases st')
    from Inr st' have keep: "map calleeOf ast' = map calleeOf ast"
      by (auto dest: visit_keeps_callees)
    have "i \<noteq> n"
    proof
      assume "i = n"
      from assms(2) Cons.prems(1) have len: "n < length ast" by (metis length_map)
      from assms(3) Cons.prems(1) len have "calleeOf (ast ! n) = MemberIdentifier l c"
        by (metis nth_map)
      from visit_multiple [OF len this assms(4,5)] Inr \<open>i = n\<close> show False by simp
    qed
    with Cons.prems(2) have "n \<in> set rest" by simp
    from Cons.IH [OF _ this, of ast' snaps' rem'] keep Cons.prems(1)
    have "traverseCalls escape g rest (snaps', ast', rem') = Inl MultipleInlineSnapshots" by simp
    with Inr st' show ?thesis by simp
  qed
qed

text \<open>Two records at the position of a visited call end the traversal in the
  multiple-inline-snapshots error.\<close>

lemma traverseAst_multiple:
  assumes "i < length snapshots" "j < length snapshots" "i \<noteq> j"
    and "frameKey (frame (snapshots ! i)) = Some (l, c)"
    and "frameKey (frame (snapshots ! j)) = Some (l, c)"
    and "n < length ast" "calleeOf (ast ! n) = MemberIdentifier l c"
  shows "traverseAst escape snapshots ast = Inl MultipleInlineSnapshots"
proof -
  let ?P = "\<lambda>m. frameKey (frame (snapshots ! m)) = Some (l, c)"
  let ?grp = "filter ?P [0..<length snapshots]"
  from two_in_filter [of i "length snapshots" j ?P] assms(1-5)
  have big: "length ?grp > 1" by simp
  then have "?grp \<noteq> []" by auto
  then have look: "map_of (groupSnapshotsByFrame snapshots) (Some (l, c)) = Some ?grp"
    by (simp add: groupSnapshotsByFrame_def groupSnapshotsBy_lookup)
  have "traverseCalls escape (groupSnapshotsByFrame snapshots) [0..<length ast]
          (snapshots, ast, remdups (map snapshot snapshots)) = Inl MultipleInlineSnapshots"
    by (rule traverse_multiple [where n = n and cs = "map calleeOf ast" and l = l and c = c,
          OF _ _ _ look big]) (use assms(6,7) in simp_all)
  then show ?thesis
    by (simp add: traverseAst_def Let_def)
qed

lemma group_members:
  assumes "map_of (groupSnapshotsByFrame snaps0) k = Some grp" "x \<in> set grp"
  shows "frameKey (frame (snaps0 ! x)) = k"
  using assms
  by (auto simp: groupSnapshotsByFrame_def groupSnapshotsBy_lookup split: if_splits)

lemma visit_keeps_unbound:
  assumes "visitCallExpression escape g i (snaps, ast, rem) = Inr (snaps', ast', rem')"
    and "calleeOf (ast ! i) \<noteq> MemberIdentifier l c"
    and "\<And>k grp. map_of g k = Some grp \<Longrightarrow> m \<in> set grp \<Longrightarrow> k = Some (l, c)"
    and "node (snaps ! m) = None"
  shows "node (snaps' ! m) = None \<and> length snaps' = length snaps"
proof (cases "calleeOf (ast ! i)")
  case OtherCallee
  with assms(1,4) show ?thesis by (simp add: visitCallExpression_def)
next
  case (MemberIdentifier l' c')
  with assms(2) have ne: "Some (l', c') \<noteq> Some (l, c)" by auto
  show ?thesis
  proof (cases "map_of g (Some (l', c'))")
    case None
    with MemberIdentifier assms(1,4) show ?thesis by (simp add: visitCallExpression_def)
  next
    case (Some grp)
    with assms(3) ne have "m \<notin> set grp" by blast
    with MemberIdentifier Some assms(1,4) show ?thesis
      by (auto simp: visitCallExpression_def Let_def split: list.splits if_splits)
  qed
qed

lemma traverse_keeps_unbound:
  assumes "\<And>k grp. map_of g k = Some grp \<Longrightarrow> m \<in> set grp \<Longrightarrow> k = Some (l, c)"
    and "\<forall>i \<in> set is. i < length cs \<and> cs ! i \<noteq> MemberIdentifier l c"
  shows "map calleeOf ast = cs \<Longrightarrow> node (snaps ! m) = None \<Longrightarrow>
         traverseCalls escape g is (snaps, ast, rem) = Inr (snaps', ast', rem') \<Longrightarrow>
         node (snaps' ! m) = None \<and> length snaps' = length snaps"
  using assms(2)
proof (induction "is" arbitrary: snaps ast rem)
  case Nil
  then show ?case by simp
next
  case (Cons i rest)
  from Cons.prems(3) obtain st1 where v: "visitCallExpression escape g i (snaps, ast, rem) = Inr st1"
    and t: "traverseCalls escape g rest st1 = Inr (snaps', ast', rem')"
    by (auto split: sum.splits)
  obtain snaps1 ast1 rem1 where st1: "st1 = (snaps1, ast1, rem1)" by (cases st1)
  from Cons.prems(1,4) have "calleeOf (ast ! i) \<noteq> MemberIdentifier l c"
    by (metis length_map list.set_intros(1) nth_map)
  from visit_keeps_unbound [OF v [unfolded st1] this assms(1) Cons.prems(2)]
  have n1: "node (snaps1 ! m) = None" and l1: "length snaps1 = length snaps" by simp_all
  from v st1 Cons.prems(1) have c1: "map calleeOf ast1 = cs"
    by (auto dest: visit_keeps_callees)
  from Cons.prems(4) have "\<forall>i \<in> set rest. i < length cs \<and> cs ! i \<noteq> MemberIdentifier l c"
    by simp
  from Cons.IH [OF c1 n1 t [unfolded st1] this] l1 show ?case by simp
qed

lemma reduceRight_unbound:
  "m < length xs \<Longrightarrow> node (xs ! m) = None \<Longrightarrow> \<exists>e. reduceRight generate ast xs source = Inl e"
proof (induction xs arbitrary: m)
  case Nil
  then show ?case by simp
next
  case (Cons x xs)
  show ?case
  proof (cases m)
    case 0
    with Cons.prems show ?thesis
      by (auto simp: substitute_def split: sum.splits)
  next
    case (Suc m')
    with Cons.prems Cons.IH [of m'] show ?thesis by auto
  qed
qed

text \<open>
  Whatever the tree holds: a batch with two unbound records at one position never
  reaches the write.
\<close>

lemma same_position_never_writes:
  assumes "i < length snapshots" "j < length snapshots" "i \<noteq> j"
    and "frameKey (frame (snapshots ! i)) = Some (l, c)"
    and "frameKey (frame (snapshots ! j)) = Some (l, c)"
    and "node (snapshots ! i) = None"
  shows "\<exists>e. saveSnapshotsForFile escape generate snapshots sourceFile ast = Raised e"
proof (cases "\<exists>n < length ast. calleeOf (ast ! n) = MemberIdentifier l c")
  case True
  then obtain n where "n < length ast" "calleeOf (ast ! n) = MemberIdentifier l c" by blast
  from traverseAst_multiple [OF assms(1-5) this] show ?thesis
    by (simp add: saveSnapshotsForFile_def)
next
  case False
  show ?thesis
  proof (cases "traverseAst escape snapshots ast")
    case (Inl e)
    then show ?thesis by (simp add: saveSnapshotsForFile_def)
  next
    case (Inr r)
    obtain snaps' ast' where r: "r = (snaps', ast')" by (cases r)
    from Inr r obtain rem' where t: "traverseCalls escape (groupSnapshotsByFrame snapshots)
        [0..<length ast] (snapshots, ast, remdups (map snapshot snapshots)) = Inr (snaps', ast', rem')"
      by (auto simp: traverseAst_def Let_def split: sum.splits if_splits)
    have grp: "\<And>k grp. map_of (groupSnapshotsByFrame snapshots) k = Some grp \<Longrightarrow>
        i \<in> set grp \<Longrightarrow> k = Some (l, c)"
      using group_members assms(4) by fastforce
    from False have none: "\<forall>n \<in> set [0..<length ast].
        n < length (map calleeOf ast) \<and> map calleeOf ast ! n \<noteq> MemberIdentifier l c"
      by simp
    from traverse_keeps_unbound [OF grp none refl assms(6) t]
    have "node (snaps' ! i) = None" "length snaps' = length snapshots" by simp_all
    with assms(1) reduceRight_unbound [of i snaps' generate ast' sourceFile]
    obtain e where "reduceRight generate ast' snaps' sourceFile = Inl e" by auto
    with Inr r show ?thesis by (simp add: saveSnapshotsForFile_def)
  qed
qed

lemmas patch_defs =
  saveSnapshotsForFile_def traverseAst_def groupSnapshotsByFrame_def groupSnapshotsBy_def
  visitCallExpression_def frameKey_def findIndexTemplateLiteral_def substitute_def
  sampleCallExpression_def sampleFrame_def Let_def

text \<open>
  C5, at two pending records with the same snapshot text of which only the first has a
  call at its position: binding the first removes the shared text from
  \<^verbatim>\<open>remainingSnapshots\<close>, so the traversal ends without the error and the second
  record is left unbound (the caller then stops at "no snapshot insert location found").
  With two different texts the same batch does raise the error.
\<close>

theorem unbound_record_with_shared_text_not_reported:
  "traverseAst (\<lambda>t. t)
     [\<lparr>snapshot = ''1'', frame = sampleFrame 1 11, node = None\<rparr>,
      \<lparr>snapshot = ''1'', frame = sampleFrame 5 11, node = None\<rparr>]
     [sampleCallExpression 1 10 0 32] =
   Inr ([\<lparr>snapshot = ''1'', frame = sampleFrame 1 11, node = Some 0\<rparr>,
         \<lparr>snapshot = ''1'', frame = sampleFrame 5 11, node = None\<rparr>],
        [(sampleCallExpression 1 10 0 32)\<lparr>arguments := [TemplateLiteral ''1'']\<rparr>]) \<and>
   saveSnapshotsForFile (\<lambda>t. t) (\<lambda>c. [])
     [\<lparr>snapshot = ''1'', frame = sampleFrame 1 11, node = None\<rparr>,
      \<lparr>snapshot = ''1'', frame = sampleFrame 5 11, node = None\<rparr>]
     ''expect(1).toMatchInlineSnapshot();''
     [sampleCallExpression 1 10 0 32] = Raised NoInsertLocation \<and>
   traverseAst (\<lambda>t. t)
     [\<lparr>snapshot = ''1'', frame = sampleFrame 1 11, node = None\<rparr>,
      \<lparr>snapshot = ''2'', frame = sampleFrame 5 11, node = None\<rparr>]
     [sampleCallExpression 1 10 0 32] = Inl CouldntLocateAll"
  by (simp add: patch_defs)

text \<open>
  C8: when two pending records of one file have the same position, and a call expression
  of the file (its callee a member expression with an identifier property) stands at that
  position, \<^verbatim>\<open>saveSnapshotsForFile\<close> raises the multiple-inline-snapshots error and
  does not reach its write: the file stays as it was.
\<close>

theorem same_call_position_raises:
  assumes "i < length snapshots" "j < length snapshots" "i \<noteq> j"
    and "frameKey (frame (snapshots ! i)) = Some (l, c)"
    and "frameKey (frame (snapshots ! j)) = Some (l, c)"
    and "n < length ast" "calleeOf (ast ! n) = MemberIdentifier l c"
  shows "saveSnapshotsForFile escape generate snapshots sourceFile ast =
           Raised MultipleInlineSnapshots"
proof -
  from assms have "traverseAst escape snapshots ast = Inl MultipleInlineSnapshots"
    by (rule traverseAst_multiple)
  then show ?thesis by (simp add: saveSnapshotsForFile_def)
qed

theorem same_call_position_raises_witness:
  "(0::nat) < length [\<lparr>snapshot = ''1'', frame = sampleFrame 1 11, node = None\<rparr>,
                      \<lparr>snapshot = ''2'', frame = sampleFrame 1 11, node = None\<rparr>] \<and>
   (1::nat) < length [\<lparr>snapshot = ''1'', frame = sampleFrame 1 11, node = None\<rparr>,
                      \<lparr>snapshot = ''2'', frame = sampleFrame 1 11, node = None\<rparr>] \<and>
   frameKey (sampleFrame 1 11) = Some (1, 10) \<and>
   calleeOf (sampleCallExpression 1 10 0 32) = MemberIdentifier 1 10 \<and>
   saveSnapshotsForFile (\<lambda>t. t) (\<lambda>c. [])
     [\<lparr>snapshot = ''1'', frame = sampleFrame 1 11, node = None\<rparr>,
      \<lparr>snapshot = ''2'', frame = sampleFrame 1 11, node = None\<rparr>]
     ''expect(1).toMatchInlineSnapshot();''
     [sampleCallExpression 1 10 0 32] = Raised MultipleInlineSnapshots"
proof -
  have k: "frameKey (sampleFrame 1 11) = Some (1, 10)"
    by (simp add: frameKey_def sampleFrame_def)
  have c: "calleeOf (sampleCallExpression 1 10 0 32) = MemberIdentifier 1 10"
    by (simp add: sampleCallExpression_def)
  from same_call_position_raises [where i = 0 and j = 1 and n = 0 and l = 1 and c = 10
      and snapshots = "[\<lparr>snapshot = ''1'', frame = sampleFrame 1 11, node = None\<rparr>,
                        \<lparr>snapshot = ''2'', frame = sampleFrame 1 11, node = None\<rparr>]"
      and ast = "[sampleCallExpression 1 10 0 32]" and escape = "\<lambda>t. t"
      and generate = "\<lambda>c. []" and sourceFile = "''expect(1).toMatchInlineSnapshot();''"]
    k c
  show ?thesis by simp
qed

section \<open>Properties of the literal generator\<close>

lemmas symbol_defs =
  generateSnapshot_def getSymbolAstFromStandardSymbol_def symbolToString_def matchHere_def
  lineTerminator_def

text \<open>A match of the pattern needs its fixed prefix somewhere in the text.\<close>

lemma regexExec_prefix:
  "regexExec s = Some r \<Longrightarrow> \<exists>pre post. s = pre @ ''Symbol(Symbol.'' @ post"
proof (induction s)
  case Nil
  then show ?case by simp
next
  case (Cons c cs)
  show ?case
  proof (cases "matchHere (c # cs)")
    case None
    with Cons.prems have "regexExec cs = Some r" by simp
    from Cons.IH [OF this] obtain pre post where "cs = pre @ ''Symbol(Symbol.'' @ post"
      by blast
    then have "c # cs = (c # pre) @ ''Symbol(Symbol.'' @ post" by simp
    then show ?thesis by blast
  next
    case (Some g)
    then have "take 14 (c # cs) = ''Symbol(Symbol.''"
      by (simp add: matchHere_def split: if_splits)
    then have "c # cs = [] @ ''Symbol(Symbol.'' @ drop 14 (c # cs)"
      by (metis append_Nil append_take_drop_id)
    then show ?thesis by blast
  qed
qed

text \<open>
  The well-known path, at \<^verbatim>\<open>Symbol.iterator\<close>: the identifier of the property is
  built from the whole array of the match, not from its group.
\<close>

lemma well_known_symbol_literal:
  "generateSnapshot escape (VSym a (Some ''Symbol.iterator'')) False =
     Some (MemberExpression (Identifier (Name ''Symbol''))
             (Identifier (MatchArray [''Symbol(Symbol.iterator)'', ''iterator''])))"
  by (simp add: symbol_defs)

text \<open>
  C9, as the code has it: in non-serialized mode, every symbol whose string form
  \<^verbatim>\<open>Symbol(<description>)\<close> has no match of the pattern becomes the string literal of
  that string form.
\<close>

theorem other_symbol_is_string_form_literal:
  assumes "regexExec (symbolToString d) = None"
  shows "generateSnapshot escape (VSym a d) False =
           Some (StringLiteral (''Symbol('' @ (case d of None \<Rightarrow> [] | Some t \<Rightarrow> t) @ '')''))"
  using assms
  by (simp add: generateSnapshot_def getSymbolAstFromStandardSymbol_def symbolToString_def)

theorem other_symbol_is_string_form_literal_witness:
  "regexExec (symbolToString (Some ''foo'')) = None \<and>
   generateSnapshot (\<lambda>t. t) (VSym 1 (Some ''foo'')) False = Some (StringLiteral ''Symbol(foo)'')"
proof -
  have h: "regexExec (symbolToString (Some ''foo'')) = None"
    by (simp add: symbol_defs)
  from other_symbol_is_string_form_literal [OF h, of "\<lambda>t. t" 1] h show ?thesis by simp
qed

text \<open>
  C9 as stated fails on both halves: the symbol of description \<open>foo\<close> becomes the
  literal of \<open>Symbol(foo)\<close>, not of \<open>foo\<close>; and \<^verbatim>\<open>Symbol.iterator\<close> does not
  become the reference \<^verbatim>\<open>Symbol.iterator\<close>.
\<close>

theorem symbol_literal_is_not_description:
  "generateSnapshot (\<lambda>t. t) (VSym 1 (Some ''foo'')) False = Some (StringLiteral ''Symbol(foo)'') \<and>
   generateSnapshot (\<lambda>t. t) (VSym 1 (Some ''foo'')) False \<noteq> Some (StringLiteral ''foo'') \<and>
   generateSnapshot (\<lambda>t. t) (VSym 2 (Some ''Symbol.iterator'')) False \<noteq>
     Some (MemberExpression (Identifier (Name ''Symbol'')) (Identifier (Name ''iterator'')))"
  by (simp add: symbol_defs)


end
